theory Spec2Isabelle
  imports Complex_Main "HOL-Library.Word"
begin

section \<open>Values\<close>

text \<open>
  Coordinates, angles, colour channels and stroke widths are Python floats in
  \<^verbatim>\<open>rendering.py\<close>; here they are real numbers, so \<^verbatim>\<open>float(x)\<close> is the identity
  and rounding, infinities and NaN are outside the model.
\<close>

type_synonym vec2 = "real \<times> real"
type_synonym vec4 = "real \<times> real \<times> real \<times> real"

text \<open>
  The exceptions the code raises or lets through. \<open>ModuleError\<close> stands for
  whatever the code of a loaded module raises.
\<close>

datatype error =
    NotImplementedError
  | AssertionError
  | IndexError
  | ValueError
  | ZeroDivisionError
  | FileNotFoundError string
  | ImportError string
  | ModuleError string

section \<open>The affine transforms of the drawing library\<close>

text \<open>
  \<^verbatim>\<open>matplotlib.transforms.Affine2D\<close> is the library type the source composes. Its
  matrix is
  \<^verbatim>\<open>[[xx, xy, x0], [yx, yy, y0], [0, 0, 1]]\<close>.
  \<^verbatim>\<open>scale\<close>, \<^verbatim>\<open>rotate\<close> and \<^verbatim>\<open>translate\<close> update the matrix so that the new
  operation acts after what the transform already does; \<^verbatim>\<open>a + b\<close> is the
  transform that applies \<^verbatim>\<open>a\<close> and then \<^verbatim>\<open>b\<close> (its matrix is the product of
  \<^verbatim>\<open>b\<close>'s with \<^verbatim>\<open>a\<close>'s); \<^verbatim>\<open>transform\<close> applies the matrix to a point.
\<close>

record Affine2D =
  xx :: real
  xy :: real
  x0 :: real
  yx :: real
  yy :: real
  y0 :: real

definition Affine2D_init :: Affine2D where
  "Affine2D_init = \<lparr>xx = 1, xy = 0, x0 = 0, yx = 0, yy = 1, y0 = 0\<rparr>"

definition Affine2D_scale :: "Affine2D \<Rightarrow> real \<Rightarrow> real \<Rightarrow> Affine2D" where
  "Affine2D_scale m sx sy =
     \<lparr>xx = xx m * sx, xy = xy m * sx, x0 = x0 m * sx,
      yx = yx m * sy, yy = yy m * sy, y0 = y0 m * sy\<rparr>"

definition Affine2D_rotate :: "Affine2D \<Rightarrow> real \<Rightarrow> Affine2D" where
  "Affine2D_rotate m theta =
     (let a = cos theta; b = sin theta in
      \<lparr>xx = a * xx m - b * yx m, xy = a * xy m - b * yy m, x0 = a * x0 m - b * y0 m,
       yx = b * xx m + a * yx m, yy = b * xy m + a * yy m, y0 = b * x0 m + a * y0 m\<rparr>)"

definition Affine2D_translate :: "Affine2D \<Rightarrow> real \<Rightarrow> real \<Rightarrow> Affine2D" where
  "Affine2D_translate m tx ty = m\<lparr>x0 := x0 m + tx, y0 := y0 m + ty\<rparr>"

definition Affine2D_add :: "Affine2D \<Rightarrow> Affine2D \<Rightarrow> Affine2D" where
  "Affine2D_add a b =
     \<lparr>xx = xx b * xx a + xy b * yx a,
      xy = xx b * xy a + xy b * yy a,
      x0 = xx b * x0 a + xy b * y0 a + x0 b,
      yx = yx b * xx a + yy b * yx a,
      yy = yx b * xy a + yy b * yy a,
      y0 = yx b * x0 a + yy b * y0 a + y0 b\<rparr>"

definition Affine2D_transform :: "Affine2D \<Rightarrow> vec2 \<Rightarrow> vec2" where
  "Affine2D_transform m p =
     (xx m * fst p + xy m * snd p + x0 m, yx m * fst p + yy m * snd p + y0 m)"

section \<open>Attributes\<close>

definition clamp01 :: "real \<Rightarrow> real" where
  "clamp01 x = max 0 (min 1 x)"

datatype Color = Color (vec4: vec4)

definition Color_init :: "vec4 \<Rightarrow> Color" where
  "Color_init v = (case v of (r, g, b, a) \<Rightarrow> Color (clamp01 r, clamp01 g, clamp01 b, clamp01 a))"

datatype LineWidth = LineWidth (stroke: real)

datatype Transform = Transform (translation: vec2) (rotation: real) (scale: vec2)

definition set_translation :: "Transform \<Rightarrow> real \<Rightarrow> real \<Rightarrow> Transform" where
  "set_translation t newx newy = Transform (newx, newy) (rotation t) (scale t)"

definition set_rotation :: "Transform \<Rightarrow> real \<Rightarrow> Transform" where
  "set_rotation t new = Transform (translation t) new (scale t)"

definition set_scale :: "Transform \<Rightarrow> real \<Rightarrow> real \<Rightarrow> Transform" where
  "set_scale t newx newy = Transform (translation t) (rotation t) (newx, newy)"

text \<open>The constructor of \<^verbatim>\<open>Transform\<close>; its defaults are \<open>(0, 0)\<close>, \<open>0\<close> and \<open>(1, 1)\<close>.\<close>

definition Transform_init :: "vec2 \<Rightarrow> real \<Rightarrow> vec2 \<Rightarrow> Transform" where
  "Transform_init tr rot sc = Transform tr rot sc"

definition as_affine :: "Transform \<Rightarrow> Affine2D" where
  "as_affine T =
     (case translation T of (tx, ty) \<Rightarrow>
      case scale T of (sx, sy) \<Rightarrow>
        let t0 = Affine2D_init;
            t1 = (if sx \<noteq> 1 \<or> sy \<noteq> 1 then Affine2D_scale t0 sx sy else t0);
            t2 = (if rotation T \<noteq> 0 then Affine2D_rotate t1 (rotation T) else t1);
            t3 = (if tx \<noteq> 0 \<or> ty \<noteq> 0 then Affine2D_translate t2 tx ty else t2)
        in t3)"

text \<open>The three classes of attribute, as the \<^verbatim>\<open>isinstance\<close> tests tell them apart.\<close>

datatype Attr = ColorAttr Color | LineWidthAttr LineWidth | TransformAttr Transform

section \<open>Drawables\<close>

text \<open>
  What the drawables hand to the axes: the library's patches and lines. A patch
  keeps its points in local coordinates together with a transform; the source
  sets that transform to the drawable's collected transform followed by the
  axes' data-to-pixel mapping \<^verbatim>\<open>ax.transData\<close>, and \<open>patch_transform\<close> is the
  collected part. A \<^verbatim>\<open>Line2D\<close> holds its x and y data, already in data
  coordinates, and joins consecutive points.
\<close>

datatype Artist =
    MplPolygon (xy: "vec2 list") (closed: bool) (facecolor: vec4) (edgecolor: vec4)
      (patch_linewidth: real) (patch_transform: Affine2D)
  | MplCircle (center: vec2) (patch_radius: real) (facecolor: vec4) (edgecolor: vec4)
      (patch_linewidth: real) (patch_transform: Affine2D)
  | Line2D (xdata: "real list") (ydata: "real list") (line_linewidth: real) (line_color: vec4)

text \<open>
  A \<^verbatim>\<open>Geom\<close> has the current colour, the attribute list and the current line
  width; the subclasses add their own data. \<open>BaseGeom\<close> is the class \<^verbatim>\<open>Geom\<close>
  itself, whose \<^verbatim>\<open>draw\<close> raises. A vertex array is a list of points.
\<close>

datatype Geom = Geom (color: Color) (attrs: "Attr list") (linewidth: LineWidth) (shape: Shape)
and Shape =
    BaseGeom
  | FilledPolygon "vec2 list"
  | PolyLine "vec2 list" bool
  | Circle real
  | Compound "Geom list"

definition Geom_init :: "Shape \<Rightarrow> Geom" where
  "Geom_init s =
     (let c = Color_init (0, 0, 0, 1) in Geom c [ColorAttr c] (LineWidth 1) s)"

definition add_attr :: "Geom \<Rightarrow> Attr \<Rightarrow> Geom" where
  "add_attr g attr = Geom (color g) (attrs g @ [attr]) (linewidth g) (shape g)"

fun is_Color :: "Attr \<Rightarrow> bool" where
  "is_Color (ColorAttr c) = True"
| "is_Color a = False"

definition set_color :: "Geom \<Rightarrow> real \<Rightarrow> real \<Rightarrow> real \<Rightarrow> real \<Rightarrow> Geom" where
  "set_color g r gr b alpha =
     (let c = Color_init (r, gr, b, alpha);
          as = filter (\<lambda>a. \<not> is_Color a) (attrs g)
      in Geom c (as @ [ColorAttr c]) (linewidth g) (shape g))"

definition set_linewidth :: "Geom \<Rightarrow> real \<Rightarrow> Geom" where
  "set_linewidth g x = Geom (color g) (attrs g) (LineWidth x) (shape g)"

text \<open>The body of the loop of \<^verbatim>\<open>_collect_transform\<close>, and the loop over the reversed list.\<close>

fun collect_step :: "Affine2D \<Rightarrow> Attr \<Rightarrow> Affine2D" where
  "collect_step affine (TransformAttr t) = Affine2D_add affine (as_affine t)"
| "collect_step affine a = affine"

definition collect_transform :: "Geom \<Rightarrow> Affine2D" where
  "collect_transform g = foldl collect_step Affine2D_init (rev (attrs g))"

definition get_colors :: "Geom \<Rightarrow> vec4 \<times> vec4" where
  "get_colors g =
     (case vec4 (color g) of (r, gr, b, a) \<Rightarrow>
        ((r, gr, b, a), (0.5 * r, 0.5 * gr, 0.5 * b, 0.5 * a)))"

definition get_linewidth :: "Geom \<Rightarrow> real" where
  "get_linewidth g = stroke (linewidth g)"

text \<open>
  The axes: the limits, the background, the aspect and axis switches, and the
  artists added since the last \<^verbatim>\<open>clear\<close>.
\<close>

record Axes =
  ax_facecolor :: "real \<times> real \<times> real"
  xlim :: vec2
  ylim :: vec2
  aspect_equal :: bool
  axis_on :: bool
  artists :: "Artist list"

definition add_patch :: "Axes \<Rightarrow> Artist \<Rightarrow> Axes" where
  "add_patch ax p = ax\<lparr>artists := artists ax @ [p]\<rparr>"

definition add_line :: "Axes \<Rightarrow> Artist \<Rightarrow> Axes" where
  "add_line ax l = ax\<lparr>artists := artists ax @ [l]\<rparr>"

text \<open>
  \<^verbatim>\<open>draw\<close> changes the axes only, and may raise part of the way through a
  \<^verbatim>\<open>Compound\<close>: the result is the axes as the call leaves them and the exception,
  if any. An empty vertex array has one dimension only, so \<^verbatim>\<open>self.v[0]\<close> and
  \<^verbatim>\<open>pts[:, 0]\<close> raise \<^verbatim>\<open>IndexError\<close> on it, and the library's polygon patch
  rejects it with \<^verbatim>\<open>ValueError\<close>.
\<close>

definition PolyLine_pts :: "vec2 list \<Rightarrow> bool \<Rightarrow> vec2 list" where
  "PolyLine_pts v close = (if close then v @ [v ! 0] else v)"

fun draw :: "Geom \<Rightarrow> Axes \<Rightarrow> Axes \<times> error option"
and draw_gs :: "Geom list \<Rightarrow> Axes \<Rightarrow> Axes \<times> error option" where
  "draw (Geom c as lw BaseGeom) ax = (ax, Some NotImplementedError)"
| "draw (Geom c as lw (FilledPolygon v)) ax =
     (let g = Geom c as lw (FilledPolygon v) in
      case get_colors g of (face, edge) \<Rightarrow>
        if v = [] then (ax, Some ValueError)
        else (add_patch ax
                (MplPolygon v True face edge (get_linewidth g) (collect_transform g)), None))"
| "draw (Geom c as lw (PolyLine v close)) ax =
     (let g = Geom c as lw (PolyLine v close) in
      case get_colors g of (face, edge) \<Rightarrow>
        if v = [] then (ax, Some IndexError)
        else
          let pts = PolyLine_pts v close;
              aff = collect_transform g;
              pts_t = map (Affine2D_transform aff) pts
          in (add_line ax (Line2D (map fst pts_t) (map snd pts_t) (get_linewidth g) edge), None))"
| "draw (Geom c as lw (Circle radius)) ax =
     (let g = Geom c as lw (Circle radius) in
      case get_colors g of (face, edge) \<Rightarrow>
        (add_patch ax
           (MplCircle (0, 0) radius face edge (get_linewidth g) (collect_transform g)), None))"
| "draw (Geom c as lw (Compound gs)) ax = draw_gs gs ax"
| "draw_gs [] ax = (ax, None)"
| "draw_gs (g # gs) ax =
     (case draw g ax of
        (ax', None) \<Rightarrow> draw_gs gs ax'
      | (ax', Some e) \<Rightarrow> (ax', Some e))"

section \<open>Factory functions\<close>

definition make_circle :: "real \<Rightarrow> nat \<Rightarrow> bool \<Rightarrow> Geom" where
  "make_circle radius res filled = Geom_init (Circle radius)"

definition make_polygon :: "vec2 list \<Rightarrow> bool \<Rightarrow> Geom" where
  "make_polygon v filled =
     (if filled then Geom_init (FilledPolygon v) else Geom_init (PolyLine v True))"

definition make_polyline :: "vec2 list \<Rightarrow> Geom" where
  "make_polyline v = Geom_init (PolyLine v False)"

definition make_capsule :: "real \<Rightarrow> real \<Rightarrow> Geom" where
  "make_capsule len width =
     (let half_w = width / 2;
          body = make_polygon [(0, - half_w), (0, half_w), (len, half_w), (len, - half_w)] True;
          cap0 = make_circle half_w 30 True;
          cap1 = make_circle half_w 30 True;
          t1 = Transform_init (len, 0) 0 (1, 1);
          cap1' = add_attr cap1 (TransformAttr t1)
      in Geom_init (Compound [body, cap0, cap1']))"

section \<open>The viewer\<close>

text \<open>
  The viewer keeps the pixel size, the figure's size in inches, the axes, the two
  lists of drawables and the bounds. A method that can raise returns the viewer
  as the call leaves it together with the outcome.
\<close>

record Viewer =
  width :: int
  height :: int
  dpi :: int
  figsize :: vec2
  ax :: Axes
  geoms :: "Geom list"
  onetime_geoms :: "Geom list"
  bounds :: "real \<times> real \<times> real \<times> real"

text \<open>Fresh axes, as \<^verbatim>\<open>add_subplot\<close> creates them and \<^verbatim>\<open>clear\<close> leaves them.\<close>

definition Axes_clear :: Axes where
  "Axes_clear =
     \<lparr>ax_facecolor = (1, 1, 1), xlim = (0, 1), ylim = (0, 1),
      aspect_equal = False, axis_on = True, artists = []\<rparr>"

definition Viewer_init :: "int \<Rightarrow> int \<Rightarrow> int \<Rightarrow> error + Viewer" where
  "Viewer_init w h d =
     (if d = 0 then Inl ZeroDivisionError
      else Inr \<lparr>width = w, height = h, dpi = d,
                figsize = (real_of_int w / real_of_int d, real_of_int h / real_of_int d),
                ax = Axes_clear\<lparr>ax_facecolor := (1, 1, 1), axis_on := False\<rparr>,
                geoms = [], onetime_geoms = [],
                bounds = (- 1, 1, - 1, 1)\<rparr>)"

definition set_bounds :: "Viewer \<Rightarrow> real \<Rightarrow> real \<Rightarrow> real \<Rightarrow> real \<Rightarrow> Viewer \<times> error option" where
  "set_bounds v left right bottom top' =
     (if right > left \<and> top' > bottom
      then (v\<lparr>bounds := (left, right, bottom, top')\<rparr>, None)
      else (v, Some AssertionError))"

definition add_geom :: "Viewer \<Rightarrow> Geom \<Rightarrow> Viewer" where
  "add_geom v geom = v\<lparr>geoms := geoms v @ [geom]\<rparr>"

definition add_onetime :: "Viewer \<Rightarrow> Geom \<Rightarrow> Viewer" where
  "add_onetime v geom = v\<lparr>onetime_geoms := onetime_geoms v @ [geom]\<rparr>"

definition prepare_axes :: "Viewer \<Rightarrow> Viewer" where
  "prepare_axes v =
     (case bounds v of (left, right, bottom, top') \<Rightarrow>
        v\<lparr>ax := Axes_clear\<lparr>ax_facecolor := (1, 1, 1), xlim := (left, right),
                            ylim := (bottom, top'), aspect_equal := True, axis_on := False\<rparr>\<rparr>)"

text \<open>
  The canvas measures the figure in pixels: the size in inches times the dots per
  inch, cut to an integer as \<^verbatim>\<open>int\<close> does (towards zero).
\<close>

definition py_int :: "real \<Rightarrow> int" where
  "py_int x = (if x \<ge> 0 then \<lfloor>x\<rfloor> else \<lceil>x\<rceil>)"

definition get_width_height :: "Viewer \<Rightarrow> int \<times> int" where
  "get_width_height v =
     (py_int (fst (figsize v) * real_of_int (dpi v)), py_int (snd (figsize v) * real_of_int (dpi v)))"

text \<open>
  \<^verbatim>\<open>buf.reshape((h, w, c))\<close> of a flat byte buffer: rows of pixels of \<open>c\<close> bytes
  each, and \<^verbatim>\<open>ValueError\<close> when the sizes do not agree.
\<close>

type_synonym byte = "8 word"

definition reshape :: "byte list \<Rightarrow> nat \<Rightarrow> nat \<Rightarrow> nat \<Rightarrow> error + byte list list list" where
  "reshape buf h w c =
     (if length buf = h * w * c
      then Inr (map (\<lambda>i. map (\<lambda>j. take c (drop ((i * w + j) * c) buf)) [0..<w]) [0..<h])
      else Inl ValueError)"

text \<open>
  \<^verbatim>\<open>render\<close>. The rasteriser of the canvas is the library's: \<open>tostring_argb\<close> gives,
  for the pixel size and the axes as drawn, the bytes of the frame, four per
  pixel in the order alpha, red, green, blue, the top row first.
\<close>

definition render ::
  "(int \<times> int \<Rightarrow> Axes \<Rightarrow> byte list) \<Rightarrow> Viewer \<Rightarrow> bool
     \<Rightarrow> Viewer \<times> (error + byte list list list option)" where
  "render tostring_argb v return_rgb_array =
     (let v1 = prepare_axes v in
      case draw_gs (geoms v1) (ax v1) of
        (ax2, Some e) \<Rightarrow> (v1\<lparr>ax := ax2\<rparr>, Inl e)
      | (ax2, None) \<Rightarrow>
          (case draw_gs (onetime_geoms v1) ax2 of
             (ax3, Some e) \<Rightarrow> (v1\<lparr>ax := ax3\<rparr>, Inl e)
           | (ax3, None) \<Rightarrow>
               let v2 = v1\<lparr>ax := ax3, onetime_geoms := []\<rparr> in
               if return_rgb_array then
                 (case get_width_height v2 of (w, h) \<Rightarrow>
                    (let buf = tostring_argb (w, h) (ax v2) in
                     (case reshape buf (nat h) (nat w) 4 of
                        Inl e \<Rightarrow> (v2, Inl e)
                      | Inr arr \<Rightarrow> (v2, Inr (Some (map (map (take 3)) arr))))))
               else (v2, Inr None)))"

text \<open>
  The keyword arguments of the drawing helpers: \<^verbatim>\<open>color\<close> (three or four
  channels) and \<^verbatim>\<open>linewidth\<close>, each present or not.
\<close>

record kwargs =
  kw_color :: "(real \<times> real \<times> real \<times> real option) option"
  kw_linewidth :: "real option"

definition add_attrs :: "Geom \<Rightarrow> kwargs \<Rightarrow> Geom" where
  "add_attrs geom kw =
     (let g1 = (case kw_color kw of
                  None \<Rightarrow> geom
                | Some (r, gr, b, None) \<Rightarrow> set_color geom r gr b 1
                | Some (r, gr, b, Some alpha) \<Rightarrow> set_color geom r gr b alpha);
          g2 = (case kw_linewidth kw of None \<Rightarrow> g1 | Some x \<Rightarrow> set_linewidth g1 x)
      in g2)"

definition draw_circle :: "Viewer \<Rightarrow> real \<Rightarrow> nat \<Rightarrow> bool \<Rightarrow> kwargs \<Rightarrow> Viewer \<times> Geom" where
  "draw_circle v radius res filled kw =
     (let geom = add_attrs (make_circle radius res filled) kw
      in (add_onetime v geom, geom))"

definition draw_polygon :: "Viewer \<Rightarrow> vec2 list \<Rightarrow> bool \<Rightarrow> kwargs \<Rightarrow> Viewer \<times> Geom" where
  "draw_polygon v vs filled kw =
     (let geom = add_attrs (make_polygon vs filled) kw
      in (add_onetime v geom, geom))"

definition draw_polyline :: "Viewer \<Rightarrow> vec2 list \<Rightarrow> kwargs \<Rightarrow> Viewer \<times> Geom" where
  "draw_polyline v vs kw =
     (let geom = add_attrs (make_polyline vs) kw
      in (add_onetime v geom, geom))"

definition draw_line :: "Viewer \<Rightarrow> vec2 \<Rightarrow> vec2 \<Rightarrow> kwargs \<Rightarrow> Viewer \<times> Geom" where
  "draw_line v start end kw =
     (let geom = add_attrs (Geom_init (PolyLine [start, end] False)) kw
      in (add_onetime v geom, geom))"

definition get_array ::
  "(int \<times> int \<Rightarrow> Axes \<Rightarrow> byte list) \<Rightarrow> Viewer \<Rightarrow> Viewer \<times> (error + byte list list list option)" where
  "get_array tostring_argb v = render tostring_argb v True"

section \<open>The scenario loader\<close>

text \<open>
  \<^verbatim>\<open>scenarios/__init__.py\<close>. The path functions are those of \<^verbatim>\<open>posixpath\<close> on
  strings: \<^verbatim>\<open>join\<close> of two parts, \<^verbatim>\<open>basename\<close> and the root that \<^verbatim>\<open>splitext\<close>
  returns.
\<close>

definition join :: "string \<Rightarrow> string \<Rightarrow> string" where
  "join a b =
     (if b \<noteq> [] \<and> hd b = CHR ''/'' then b
      else if a = [] \<or> last a = CHR ''/'' then a @ b
      else a @ ''/'' @ b)"

definition basename :: "string \<Rightarrow> string" where
  "basename p = rev (takeWhile (\<lambda>c. c \<noteq> CHR ''/'') (rev p))"

definition splitext_root :: "string \<Rightarrow> string" where
  "splitext_root p =
     (let filenameIndex = length p - length (takeWhile (\<lambda>c. c \<noteq> CHR ''/'') (rev p));
          dotIndex = length p - length (takeWhile (\<lambda>c. c \<noteq> CHR ''.'') (rev p)) - 1
      in if CHR ''.'' \<in> set p \<and> filenameIndex \<le> dotIndex
            \<and> (\<exists>k \<in> set [filenameIndex..<dotIndex]. p ! k \<noteq> CHR ''.'')
         then take dotIndex p else p)"

text \<open>
  A module is its name and the definitions its code has made so far. A loader
  executes the code of the file in a module and may raise; a module spec may
  have no loader.
\<close>

datatype Module = Module (mod_name: string) (definitions: "(string \<times> string) list")

datatype Loader = Loader (exec_module: "Module \<Rightarrow> Module \<times> error option")

datatype ModuleSpec = ModuleSpec (spec_name: string) (loader: "Loader option")

text \<open>
  What \<^verbatim>\<open>load\<close> reads from its surroundings: the directory of the file it is
  defined in, the file system's \<^verbatim>\<open>isfile\<close>, the hexadecimal form of the next
  \<^verbatim>\<open>uuid4\<close>, the import machinery's \<^verbatim>\<open>spec_from_file_location\<close>, and
  \<^verbatim>\<open>sys.modules\<close>, which it updates.
\<close>

record Env =
  file_dir :: string
  isfile :: "string \<Rightarrow> bool"
  uuid4_hex :: string
  spec_from_file_location :: "string \<Rightarrow> string \<Rightarrow> ModuleSpec option"
  sys_modules :: "string \<rightharpoonup> Module"

definition module_from_spec :: "ModuleSpec \<Rightarrow> Module" where
  "module_from_spec spec = Module (spec_name spec) []"

definition load :: "Env \<Rightarrow> string \<Rightarrow> Env \<times> (error + Module)" where
  "load env name =
     (let pathname = join (file_dir env) name in
      if \<not> isfile env pathname then (env, Inl (FileNotFoundError pathname))
      else
        let mname = ''_dynamic_'' @ splitext_root (basename name) @ ''_'' @ uuid4_hex env in
        (case spec_from_file_location env mname pathname of
           None \<Rightarrow> (env, Inl (ImportError (''Cannot create spec for '' @ pathname)))
         | Some spec \<Rightarrow>
             (case loader spec of
                None \<Rightarrow> (env, Inl (ImportError (''Cannot create spec for '' @ pathname)))
              | Some ld \<Rightarrow>
                  (case exec_module ld (module_from_spec spec) of
                     (m, Some e) \<Rightarrow> (env\<lparr>sys_modules := (sys_modules env)(mname \<mapsto> m)\<rparr>, Inl e)
                   | (m, None) \<Rightarrow> (env\<lparr>sys_modules := (sys_modules env)(mname \<mapsto> m)\<rparr>, Inr m)))))"

section \<open>What the specification calls scaling, rotating and translating a point\<close>

definition pt_scale :: "vec2 \<Rightarrow> vec2 \<Rightarrow> vec2" where
  "pt_scale s p = (fst s * fst p, snd s * snd p)"

definition pt_rotate :: "real \<Rightarrow> vec2 \<Rightarrow> vec2" where
  "pt_rotate theta p =
     (cos theta * fst p - sin theta * snd p, sin theta * fst p + cos theta * snd p)"

definition pt_translate :: "vec2 \<Rightarrow> vec2 \<Rightarrow> vec2" where
  "pt_translate t p = (fst p + fst t, snd p + snd t)"

section \<open>Properties the specification speaks of\<close>

text \<open>The \<^verbatim>\<open>Color\<close> attributes of an attribute sequence, in their order.\<close>

fun colors_of :: "Attr list \<Rightarrow> Color list" where
  "colors_of [] = []"
| "colors_of (ColorAttr c # as) = c # colors_of as"
| "colors_of (a # as) = colors_of as"

text \<open>
  The invariant of the specification: the current colour is the \<^verbatim>\<open>Color\<close>
  attribute registered last.
\<close>

definition current_color_inv :: "Geom \<Rightarrow> bool" where
  "current_color_inv g \<longleftrightarrow> colors_of (attrs g) \<noteq> [] \<and> last (colors_of (attrs g)) = color g"

text \<open>The segments a \<^verbatim>\<open>Line2D\<close> strokes: one between each point and the next.\<close>

definition segments :: "Artist \<Rightarrow> (vec2 \<times> vec2) list" where
  "segments l = (let pts = zip (xdata l) (ydata l) in zip pts (tl pts))"

section \<open>Composition of affine transforms\<close>

lemma Affine2D_add_init_left: "Affine2D_add Affine2D_init b = b"
  by (simp add: Affine2D_add_def Affine2D_init_def)

lemma Affine2D_add_init_right: "Affine2D_add a Affine2D_init = a"
  by (simp add: Affine2D_add_def Affine2D_init_def)

lemma Affine2D_add_assoc:
  "Affine2D_add (Affine2D_add a b) c = Affine2D_add a (Affine2D_add b c)"
  by (simp add: Affine2D_add_def algebra_simps)

lemma Affine2D_transform_add:
  "Affine2D_transform (Affine2D_add a b) p = Affine2D_transform b (Affine2D_transform a p)"
  by (simp add: Affine2D_add_def Affine2D_transform_def algebra_simps)

lemma Affine2D_transform_init: "Affine2D_transform Affine2D_init p = p"
  by (simp add: Affine2D_transform_def Affine2D_init_def)

lemma as_affine_unguarded:
  "as_affine (Transform (tx, ty) th (sx, sy)) =
     Affine2D_translate (Affine2D_rotate (Affine2D_scale Affine2D_init sx sy) th) tx ty"
  by (simp add: as_affine_def Affine2D_translate_def Affine2D_rotate_def Affine2D_scale_def
      Affine2D_init_def Let_def)

text \<open>
  The loop of \<^verbatim>\<open>_collect_transform\<close> started from any transform is that transform
  followed by the loop started from the identity.
\<close>

lemma foldl_collect_step:
  "foldl collect_step a xs = Affine2D_add a (foldl collect_step Affine2D_init xs)"
proof (induction xs arbitrary: a)
  case Nil
  show ?case by (simp add: Affine2D_add_init_right)
next
  case (Cons x xs)
  show ?case
  proof (cases x)
    case (TransformAttr t)
    have "foldl collect_step a (x # xs) = foldl collect_step (Affine2D_add a (as_affine t)) xs"
      using TransformAttr by simp
    also have "\<dots> = Affine2D_add (Affine2D_add a (as_affine t)) (foldl collect_step Affine2D_init xs)"
      by (rule Cons.IH)
    also have "\<dots> = Affine2D_add a (Affine2D_add (as_affine t) (foldl collect_step Affine2D_init xs))"
      by (rule Affine2D_add_assoc)
    also have "Affine2D_add (as_affine t) (foldl collect_step Affine2D_init xs)
        = foldl collect_step (as_affine t) xs"
      by (rule Cons.IH [symmetric])
    also have "foldl collect_step (as_affine t) xs = foldl collect_step Affine2D_init (x # xs)"
      using TransformAttr by (simp add: Affine2D_add_init_left)
    finally show ?thesis .
  qed (simp_all add: Cons.IH [of a])
qed

lemma collect_transform_add_attr:
  "collect_transform (add_attr g (TransformAttr t)) =
     Affine2D_add (as_affine t) (collect_transform g)"
proof -
  have "collect_transform (add_attr g (TransformAttr t))
      = foldl collect_step (as_affine t) (rev (attrs g))"
    by (simp add: collect_transform_def add_attr_def Affine2D_add_init_left)
  then show ?thesis
    by (simp add: collect_transform_def foldl_collect_step [of "as_affine t"])
qed

lemma collect_transform_Geom_init: "collect_transform (Geom_init s) = Affine2D_init"
  by (simp add: collect_transform_def Geom_init_def Let_def)

section \<open>A single transform\<close>

text \<open>
  Claim C5. The affine map of one \<^verbatim>\<open>Transform\<close> with translation \<open>(tx, ty)\<close>,
  rotation \<open>th\<close> and scale \<open>(sx, sy)\<close> scales a point first, then rotates it about
  the origin, then translates it. The tests that skip a scale of \<open>(1, 1)\<close>, a
  rotation of \<open>0\<close> and a translation of \<open>(0, 0)\<close> change nothing: the matrix is
  the one obtained by applying all three operations whatever their values.
\<close>

theorem as_affine_scale_rotate_translate:
  "Affine2D_transform (as_affine (Transform (tx, ty) th (sx, sy))) p =
       pt_translate (tx, ty) (pt_rotate th (pt_scale (sx, sy) p))
   \<and> as_affine (Transform (tx, ty) th (sx, sy)) =
       Affine2D_translate (Affine2D_rotate (Affine2D_scale Affine2D_init sx sy) th) tx ty"
  by (simp add: as_affine_unguarded Affine2D_translate_def Affine2D_rotate_def
      Affine2D_scale_def Affine2D_init_def Let_def Affine2D_transform_def pt_translate_def
      pt_rotate_def pt_scale_def algebra_simps)

theorem as_affine_scale_rotate_translate_witness:
  "Affine2D_transform (as_affine (Transform (3, 4) 0 (2, 2))) (1, 1) = (5, 6)
   \<and> as_affine (Transform (3, 4) 0 (2, 2)) =
       Affine2D_translate (Affine2D_rotate (Affine2D_scale Affine2D_init 2 2) 0) 3 4"
  using as_affine_scale_rotate_translate [of 3 4 0 2 2 "(1, 1)"]
  by (simp add: pt_translate_def pt_rotate_def pt_scale_def Affine2D_transform_def
      Affine2D_translate_def Affine2D_rotate_def Affine2D_scale_def Affine2D_init_def)

section \<open>The collected transform of a drawable\<close>

text \<open>
  Claim C1, as the code has it. A transform attached later is applied to a point
  earlier: with \<open>T1\<close>, \<open>T2\<close>, \<open>T3\<close> attached in that order to a new drawable, a
  local point goes through \<open>T3\<close>, then \<open>T2\<close>, then \<open>T1\<close>. With a scale by 2
  attached first and a translation by \<open>(5, 0)\<close> second, the local origin is
  translated and then scaled, and lands on \<open>(10, 0)\<close>, not on \<open>(5, 0)\<close>.
\<close>

theorem collect_transform_order:
  "Affine2D_transform
     (collect_transform
        (add_attr (add_attr (add_attr (Geom_init s) (TransformAttr T1)) (TransformAttr T2))
           (TransformAttr T3))) p =
     Affine2D_transform (as_affine T1)
       (Affine2D_transform (as_affine T2) (Affine2D_transform (as_affine T3) p))
   \<and> Affine2D_transform
       (collect_transform
          (add_attr (add_attr (Geom_init (Circle 1))
                       (TransformAttr (Transform_init (0, 0) 0 (2, 2))))
             (TransformAttr (Transform_init (5, 0) 0 (1, 1)))))
       (0, 0) = (10, 0)"
proof
  show "Affine2D_transform
     (collect_transform
        (add_attr (add_attr (add_attr (Geom_init s) (TransformAttr T1)) (TransformAttr T2))
           (TransformAttr T3))) p =
     Affine2D_transform (as_affine T1)
       (Affine2D_transform (as_affine T2) (Affine2D_transform (as_affine T3) p))"
    by (simp add: collect_transform_add_attr Affine2D_transform_add
        collect_transform_Geom_init Affine2D_transform_init)
next
  show "Affine2D_transform
       (collect_transform
          (add_attr (add_attr (Geom_init (Circle 1))
                       (TransformAttr (Transform_init (0, 0) 0 (2, 2))))
             (TransformAttr (Transform_init (5, 0) 0 (1, 1)))))
       (0, 0) = (10, 0)"
    by (simp add: collect_transform_add_attr collect_transform_Geom_init Transform_init_def
        as_affine_def Affine2D_transform_def Affine2D_add_def Affine2D_init_def
        Affine2D_scale_def Affine2D_translate_def Let_def)
qed

theorem collect_transform_order_witness:
  "Affine2D_transform
     (collect_transform
        (add_attr (add_attr (add_attr (Geom_init (Circle 1))
                               (TransformAttr (Transform (0, 0) 0 (2, 2))))
                     (TransformAttr (Transform (5, 0) 0 (1, 1))))
           (TransformAttr (Transform (0, 3) 0 (1, 1))))) (1, 1) = (12, 8)"
  using collect_transform_order
    [of "Circle 1" "Transform (0, 0) 0 (2, 2)" "Transform (5, 0) 0 (1, 1)"
        "Transform (0, 3) 0 (1, 1)" "(1, 1)"]
  by (simp add: as_affine_def Affine2D_transform_def Affine2D_init_def Affine2D_scale_def
      Affine2D_translate_def Let_def)

section \<open>The current colour\<close>

lemma colors_of_append: "colors_of (xs @ ys) = colors_of xs @ colors_of ys"
  by (induction xs rule: colors_of.induct) simp_all

lemma colors_of_filter_not_Color: "colors_of (filter (\<lambda>a. \<not> is_Color a) xs) = []"
  by (induction xs rule: colors_of.induct) simp_all

lemma colors_of_not_Color: "\<not> is_Color a \<Longrightarrow> colors_of [a] = []"
  by (cases a) simp_all

text \<open>
  Claim C6 fails as stated: \<^verbatim>\<open>add_attr\<close> is an operation on a drawable too, and
  with a \<^verbatim>\<open>Color\<close> it appends the attribute and leaves the current colour as it
  was. On a new circle, whose current colour is opaque black, attaching red makes
  red the \<^verbatim>\<open>Color\<close> registered last while the current colour stays black.
\<close>

theorem add_attr_Color_breaks_current_color:
  "current_color_inv (Geom_init (Circle 1))
   \<and> \<not> current_color_inv (add_attr (Geom_init (Circle 1)) (ColorAttr (Color_init (1, 0, 0, 1))))"
  by (simp add: current_color_inv_def Geom_init_def add_attr_def Color_init_def clamp01_def Let_def)

text \<open>
  Claim C6, amended. A new drawable satisfies the invariant. \<^verbatim>\<open>set_color\<close>
  establishes it from any state: it makes the clamped colour the current one,
  removes every \<^verbatim>\<open>Color\<close> from the sequence and appends the new one at the end,
  so that the sequence holds exactly one \<^verbatim>\<open>Color\<close>. \<^verbatim>\<open>set_linewidth\<close> preserves
  the invariant, and so does \<^verbatim>\<open>add_attr\<close> of an attribute that is not a
  \<^verbatim>\<open>Color\<close>.
\<close>

theorem set_color_current_color:
  "current_color_inv (Geom_init s)
   \<and> color (set_color g r gr b a) = Color_init (r, gr, b, a)
   \<and> attrs (set_color g r gr b a) =
       filter (\<lambda>x. \<not> is_Color x) (attrs g) @ [ColorAttr (Color_init (r, gr, b, a))]
   \<and> colors_of (attrs (set_color g r gr b a)) = [Color_init (r, gr, b, a)]
   \<and> current_color_inv (set_color g r gr b a)
   \<and> (current_color_inv g \<longrightarrow> current_color_inv (set_linewidth g x))
   \<and> (current_color_inv g \<longrightarrow> \<not> is_Color attr \<longrightarrow> current_color_inv (add_attr g attr))"
  by (simp add: current_color_inv_def Geom_init_def set_color_def set_linewidth_def add_attr_def
      Let_def colors_of_append colors_of_filter_not_Color colors_of_not_Color)

theorem set_color_current_color_witness:
  "current_color_inv (Geom_init (Circle 1))
   \<and> \<not> is_Color (TransformAttr (Transform_init (1, 0) 0 (1, 1)))
   \<and> current_color_inv (set_linewidth (Geom_init (Circle 1)) 2)
   \<and> current_color_inv
        (add_attr (Geom_init (Circle 1)) (TransformAttr (Transform_init (1, 0) 0 (1, 1))))"
  using set_color_current_color
    [of "Circle 1" "Geom_init (Circle 1)" 0 0 0 1 2
        "TransformAttr (Transform_init (1, 0) 0 (1, 1))"]
  by simp

section \<open>Compounds and the capsule\<close>

lemma shape_foldl_add_attr: "shape (foldl add_attr g as) = shape g"
  by (induction as arbitrary: g) (simp_all add: add_attr_def)

lemma draw_Compound: "shape g = Compound gs \<Longrightarrow> draw g axes = draw_gs gs axes"
  by (cases g) simp

lemma draw_make_capsule:
  "draw_gs [make_polygon [(0, - (w / 2)), (0, w / 2), (len, w / 2), (len, - (w / 2))] True,
            make_circle (w / 2) 30 True,
            add_attr (make_circle (w / 2) 30 True)
              (TransformAttr (Transform_init (len, 0) 0 (1, 1)))] axes
   = (axes\<lparr>artists := artists axes @
        [MplPolygon [(0, - (w / 2)), (0, w / 2), (len, w / 2), (len, - (w / 2))] True
           (0, 0, 0, 1) (0, 0, 0, 1 / 2) 1 Affine2D_init,
         MplCircle (0, 0) (w / 2) (0, 0, 0, 1) (0, 0, 0, 1 / 2) 1 Affine2D_init,
         MplCircle (0, 0) (w / 2) (0, 0, 0, 1) (0, 0, 0, 1 / 2) 1
           (Affine2D_translate Affine2D_init len 0)]\<rparr>, None)"
  by (simp add: make_polygon_def make_circle_def Geom_init_def add_attr_def Let_def
      get_colors_def get_linewidth_def Color_init_def clamp01_def collect_transform_def
      add_patch_def Transform_init_def as_affine_def Affine2D_add_def
      Affine2D_translate_def Affine2D_init_def)

text \<open>
  Claim C7 fails as stated: a transform attached to the \<^verbatim>\<open>Compound\<close> itself does
  not contribute to the drawing. A capsule with a translation by \<open>(1, 0)\<close>
  attached to it draws exactly what the capsule without it draws.
\<close>

theorem Compound_draw_ignores_own_transform:
  "draw (add_attr (make_capsule 10 4) (TransformAttr (Transform_init (1, 0) 0 (1, 1)))) Axes_clear
     = draw (make_capsule 10 4) Axes_clear
   \<and> snd (draw (make_capsule 10 4) Axes_clear) = None"
  by (simp add: make_capsule_def make_polygon_def make_circle_def Geom_init_def add_attr_def
      Let_def get_colors_def get_linewidth_def Color_init_def clamp01_def collect_transform_def
      add_patch_def Transform_init_def as_affine_def Affine2D_add_def Affine2D_translate_def
      Affine2D_init_def Axes_clear_def)

text \<open>
  Claim C7, amended. Drawing a \<^verbatim>\<open>Compound\<close> is drawing its children one after
  the other, stopping at the first that raises; the colour, the attributes and
  the line width of the \<^verbatim>\<open>Compound\<close> itself take no part, whatever attributes
  \<open>outer\<close> are attached to it. A capsule draws its body and its two caps; the
  second cap's centre lies \<open>(len, 0)\<close> from the first cap's, whatever is attached
  to the capsule.
\<close>

theorem Compound_draw_children_only:
  "draw (Geom c as lw (Compound gs)) axes = draw_gs gs axes
   \<and> draw_gs [] axes = (axes, None)
   \<and> draw_gs (g # gs) axes =
       (if snd (draw g axes) = None then draw_gs gs (fst (draw g axes)) else draw g axes)
   \<and> draw (foldl add_attr (Geom c as lw (Compound gs)) outer) axes = draw_gs gs axes
   \<and> (let arts = artists (fst (draw (foldl add_attr (make_capsule len w) outer) Axes_clear)) in
        snd (draw (foldl add_attr (make_capsule len w) outer) Axes_clear) = None
        \<and> arts =
          [MplPolygon [(0, - (w / 2)), (0, w / 2), (len, w / 2), (len, - (w / 2))] True
             (0, 0, 0, 1) (0, 0, 0, 1 / 2) 1 Affine2D_init,
           MplCircle (0, 0) (w / 2) (0, 0, 0, 1) (0, 0, 0, 1 / 2) 1 Affine2D_init,
           MplCircle (0, 0) (w / 2) (0, 0, 0, 1) (0, 0, 0, 1 / 2) 1
             (Affine2D_translate Affine2D_init len 0)]
        \<and> Affine2D_transform (patch_transform (arts ! 2)) (center (arts ! 2)) =
            pt_translate (len, 0)
              (Affine2D_transform (patch_transform (arts ! 1)) (center (arts ! 1))))"
proof -
  have a: "draw (Geom c as lw (Compound gs)) axes = draw_gs gs axes" by simp
  have b: "draw_gs (g # gs) axes =
       (if snd (draw g axes) = None then draw_gs gs (fst (draw g axes)) else draw g axes)"
    by (cases "draw g axes") (auto split: option.splits)
  have c: "draw (foldl add_attr (Geom c as lw (Compound gs)) outer) axes = draw_gs gs axes"
    by (rule draw_Compound) (simp add: shape_foldl_add_attr)
  have s: "shape (foldl add_attr (make_capsule len w) outer) =
      Compound [make_polygon [(0, - (w / 2)), (0, w / 2), (len, w / 2), (len, - (w / 2))] True,
            make_circle (w / 2) 30 True,
            add_attr (make_circle (w / 2) 30 True)
              (TransformAttr (Transform_init (len, 0) 0 (1, 1)))]"
    by (simp add: shape_foldl_add_attr make_capsule_def Geom_init_def Let_def)
  have d: "draw (foldl add_attr (make_capsule len w) outer) Axes_clear =
     (Axes_clear\<lparr>artists := artists Axes_clear @
        [MplPolygon [(0, - (w / 2)), (0, w / 2), (len, w / 2), (len, - (w / 2))] True
           (0, 0, 0, 1) (0, 0, 0, 1 / 2) 1 Affine2D_init,
         MplCircle (0, 0) (w / 2) (0, 0, 0, 1) (0, 0, 0, 1 / 2) 1 Affine2D_init,
         MplCircle (0, 0) (w / 2) (0, 0, 0, 1) (0, 0, 0, 1 / 2) 1
           (Affine2D_translate Affine2D_init len 0)]\<rparr>, None)"
    by (simp only: draw_Compound [OF s] draw_make_capsule)
  show ?thesis
    apply (intro conjI)
        apply (rule a)
       apply simp
      apply (rule b)
     apply (rule c)
    apply (simp only: Let_def d)
    apply (simp add: Axes_clear_def Affine2D_transform_def Affine2D_translate_def
        Affine2D_init_def pt_translate_def)
    done
qed

section \<open>Polylines\<close>

text \<open>
  Claim C8. A \<^verbatim>\<open>PolyLine\<close> with at least one vertex: drawn closed, the line it
  adds to the axes goes through the stored vertices and then the first vertex
  again, each mapped by the collected transform, which makes as many segments as
  there are vertices; drawn open, the line goes through the stored vertices only,
  one segment fewer. The extra point exists in the line only: \<^verbatim>\<open>draw\<close> has the
  drawable as an argument and the axes as its result.
\<close>

theorem PolyLine_draw_segments:
  assumes "v \<noteq> []"
  shows "draw (Geom c as lw (PolyLine v True)) axes =
       (add_line axes
          (Line2D
             (map fst (map (Affine2D_transform (collect_transform (Geom c as lw (PolyLine v True))))
                (v @ [hd v])))
             (map snd (map (Affine2D_transform (collect_transform (Geom c as lw (PolyLine v True))))
                (v @ [hd v])))
             (stroke lw) (snd (get_colors (Geom c as lw (PolyLine v True))))), None)
    \<and> length (segments (last (artists (fst (draw (Geom c as lw (PolyLine v True)) axes)))))
        = length v
    \<and> draw (Geom c as lw (PolyLine v False)) axes =
       (add_line axes
          (Line2D
             (map fst (map (Affine2D_transform (collect_transform (Geom c as lw (PolyLine v False)))) v))
             (map snd (map (Affine2D_transform (collect_transform (Geom c as lw (PolyLine v False)))) v))
             (stroke lw) (snd (get_colors (Geom c as lw (PolyLine v False))))), None)
    \<and> length (segments (last (artists (fst (draw (Geom c as lw (PolyLine v False)) axes)))))
        = length v - 1"
  using assms
  by (cases "get_colors (Geom c as lw (PolyLine v True))")
     (simp add: PolyLine_pts_def Let_def get_linewidth_def add_line_def segments_def hd_conv_nth
        get_colors_def split: prod.splits)

theorem PolyLine_draw_segments_witness:
  "[(0, 0), (1, 0), (1, 1)] \<noteq> ([] :: vec2 list)
   \<and> length (segments (last (artists (fst (draw (make_polygon [(0, 0), (1, 0), (1, 1)] False)
        Axes_clear))))) = 3
   \<and> length (segments (last (artists (fst (draw (make_polyline [(0, 0), (1, 0), (1, 1)])
        Axes_clear))))) = 2"
  using PolyLine_draw_segments
    [of "[(0, 0), (1, 0), (1, 1)]" "Color_init (0, 0, 0, 1)"
        "[ColorAttr (Color_init (0, 0, 0, 1))]" "LineWidth 1" Axes_clear]
  by (simp add: make_polygon_def make_polyline_def Geom_init_def Let_def add_line_def
      segments_def del: draw.simps)

section \<open>Circles\<close>

text \<open>
  Claim C10. \<^verbatim>\<open>make_circle\<close> does not look at \<open>res\<close> or \<open>filled\<close>: the result is
  the circle of the given radius whatever they are, and drawing it adds a disc
  patch whose face is the current colour, opaque black for a new circle. So
  \<^verbatim>\<open>draw_circle\<close> with \<open>filled = False\<close> registers the same filled circle as with
  \<open>filled = True\<close>.
\<close>

theorem make_circle_ignores_res_filled:
  "make_circle radius res filled = Geom_init (Circle radius)
   \<and> make_circle radius res filled = make_circle radius res' filled'
   \<and> draw (make_circle radius res filled) axes =
       (add_patch axes
          (MplCircle (0, 0) radius (0, 0, 0, 1) (0, 0, 0, 1 / 2) 1 Affine2D_init), None)
   \<and> draw_circle v radius res False kw = draw_circle v radius res True kw
   \<and> shape (snd (draw_circle v radius res False kw)) = Circle radius"
  by (simp add: make_circle_def Geom_init_def Let_def get_colors_def get_linewidth_def
      Color_init_def clamp01_def collect_transform_def draw_circle_def add_attrs_def
      set_color_def set_linewidth_def split: option.splits)

section \<open>The frame lifecycle\<close>

lemma draw_gs_append:
  "draw_gs (xs @ ys) axes =
     (case draw_gs xs axes of (a', None) \<Rightarrow> draw_gs ys a' | (a', Some e) \<Rightarrow> (a', Some e))"
  by (induction xs arbitrary: axes) (auto split: prod.splits option.splits)

lemma draw_gs_append_ok:
  assumes "snd (draw_gs (xs @ ys) axes) = None"
  shows "snd (draw_gs xs axes) = None"
    and "draw_gs (xs @ ys) axes = draw_gs ys (fst (draw_gs xs axes))"
  using assms by (auto simp: draw_gs_append split: prod.splits option.splits)

lemma draw_lims:
  "xlim (fst (draw g axes)) = xlim axes \<and> ylim (fst (draw g axes)) = ylim axes"
  "xlim (fst (draw_gs gs axes)) = xlim axes \<and> ylim (fst (draw_gs gs axes)) = ylim axes"
  by (induction g axes and gs axes rule: draw_draw_gs.induct)
     (auto simp: add_patch_def add_line_def Let_def split: prod.splits option.splits)

lemma prepare_axes_fields:
  "geoms (prepare_axes v) = geoms v"
  "onetime_geoms (prepare_axes v) = onetime_geoms v"
  "bounds (prepare_axes v) = bounds v"
  by (simp_all add: prepare_axes_def split: prod.splits)

lemma ax_prepare_axes_cong: "bounds v = bounds v' \<Longrightarrow> ax (prepare_axes v) = ax (prepare_axes v')"
  by (simp add: prepare_axes_def split: prod.splits)

lemma render_ok:
  assumes "snd (draw_gs (geoms v @ onetime_geoms v) (ax (prepare_axes v))) = None"
  shows "fst (render c v f) =
     (prepare_axes v)\<lparr>ax := fst (draw_gs (geoms v @ onetime_geoms v) (ax (prepare_axes v))),
                       onetime_geoms := []\<rparr>"
    and "snd (render c v False) = Inr None"
proof -
  let ?a = "ax (prepare_axes v)"
  obtain a2 where a2: "draw_gs (geoms v) ?a = (a2, None)"
    using draw_gs_append_ok(1) [OF assms] by (cases "draw_gs (geoms v) ?a") simp
  have "draw_gs (geoms v @ onetime_geoms v) ?a = draw_gs (onetime_geoms v) a2"
    using draw_gs_append_ok(2) [OF assms] a2 by simp
  then obtain a3 where a3: "draw_gs (onetime_geoms v) a2 = (a3, None)"
    and e: "draw_gs (geoms v @ onetime_geoms v) ?a = (a3, None)"
    using assms by (cases "draw_gs (onetime_geoms v) a2") simp
  show "fst (render c v f) =
     (prepare_axes v)\<lparr>ax := fst (draw_gs (geoms v @ onetime_geoms v) (ax (prepare_axes v))),
                       onetime_geoms := []\<rparr>"
    by (simp add: render_def Let_def prepare_axes_fields a2 a3 e split: prod.splits sum.splits)
  show "snd (render c v False) = Inr None"
    by (simp add: render_def Let_def prepare_axes_fields a2 a3)
qed

text \<open>
  Claim C3. When no drawable raises, a \<^verbatim>\<open>render\<close> call leaves the one-time list
  empty and the persistent list as it was, whether or not pixels were asked for
  (\<open>f1\<close>, \<open>f2\<close> are the two calls' \<^verbatim>\<open>return_rgb_array\<close>). A drawable \<open>g\<close>
  registered with \<^verbatim>\<open>add_onetime\<close> is drawn by the next call, after the persistent
  drawables and the one-time ones registered before it; the call after that
  draws the persistent drawables only. Without pixel extraction each call returns
  \<^verbatim>\<open>None\<close>.
\<close>

theorem render_clears_onetime:
  assumes "snd (draw_gs (geoms v @ onetime_geoms v @ [g]) (ax (prepare_axes v))) = None"
  shows "onetime_geoms (fst (render c (add_onetime v g) f1)) = []
    \<and> geoms (fst (render c (add_onetime v g) f1)) = geoms v
    \<and> ax (fst (render c (add_onetime v g) f1)) =
        fst (draw_gs (geoms v @ onetime_geoms v @ [g]) (ax (prepare_axes v)))
    \<and> snd (render c (add_onetime v g) False) = Inr None
    \<and> onetime_geoms (fst (render c (fst (render c (add_onetime v g) f1)) f2)) = []
    \<and> geoms (fst (render c (fst (render c (add_onetime v g) f1)) f2)) = geoms v
    \<and> ax (fst (render c (fst (render c (add_onetime v g) f1)) f2)) =
        fst (draw_gs (geoms v) (ax (prepare_axes v)))
    \<and> snd (render c (fst (render c (add_onetime v g) f1)) False) = Inr None"
proof -
  let ?v1 = "add_onetime v g"
  let ?a = "ax (prepare_axes v)"
  have pa: "ax (prepare_axes ?v1) = ?a"
    by (rule ax_prepare_axes_cong) (simp add: add_onetime_def)
  have f1: "geoms ?v1 = geoms v" "onetime_geoms ?v1 = onetime_geoms v @ [g]"
    by (simp_all add: add_onetime_def)
  have ok1: "snd (draw_gs (geoms ?v1 @ onetime_geoms ?v1) (ax (prepare_axes ?v1))) = None"
    using assms by (simp only: pa f1)
  have r1: "fst (render c ?v1 f1) =
      (prepare_axes ?v1)\<lparr>ax := fst (draw_gs (geoms v @ onetime_geoms v @ [g]) ?a),
                          onetime_geoms := []\<rparr>"
    using render_ok(1) [OF ok1, of c f1] by (simp only: pa f1)
  let ?v2 = "fst (render c ?v1 f1)"
  have f2: "geoms ?v2 = geoms v" "onetime_geoms ?v2 = []" "bounds ?v2 = bounds v"
    by (simp_all add: r1 prepare_axes_fields f1) (simp add: add_onetime_def)
  have pa2: "ax (prepare_axes ?v2) = ?a"
    by (rule ax_prepare_axes_cong) (rule f2(3))
  have "snd (draw_gs (geoms v) ?a) = None"
    using draw_gs_append_ok(1) [OF assms] .
  then have ok2: "snd (draw_gs (geoms ?v2 @ onetime_geoms ?v2) (ax (prepare_axes ?v2))) = None"
    by (simp add: f2 pa2)
  have r2: "fst (render c ?v2 f2) =
      (prepare_axes ?v2)\<lparr>ax := fst (draw_gs (geoms v) ?a), onetime_geoms := []\<rparr>"
    using render_ok(1) [OF ok2, of c f2] by (simp add: f2 pa2)
  show ?thesis
    using render_ok(2) [OF ok1, of c] render_ok(2) [OF ok2, of c]
    by (simp add: r2 f2 prepare_axes_fields) (simp add: r1 prepare_axes_fields f1)
qed

theorem render_clears_onetime_witness:
  "snd (draw_gs (geoms 
       \<lparr>width = 2, height = 2, dpi = 100, figsize = (2 / 100, 2 / 100),
          ax = Axes_clear\<lparr>ax_facecolor := (1, 1, 1), axis_on := False\<rparr>,
          geoms = [make_circle 1 30 True], onetime_geoms = [],
          bounds = (- 1, 1, - 1, 1)\<rparr> @ onetime_geoms 
       \<lparr>width = 2, height = 2, dpi = 100, figsize = (2 / 100, 2 / 100),
          ax = Axes_clear\<lparr>ax_facecolor := (1, 1, 1), axis_on := False\<rparr>,
          geoms = [make_circle 1 30 True], onetime_geoms = [],
          bounds = (- 1, 1, - 1, 1)\<rparr> @ [(make_polyline [(0, 0), (1, 1)])]) (ax (prepare_axes 
       \<lparr>width = 2, height = 2, dpi = 100, figsize = (2 / 100, 2 / 100),
          ax = Axes_clear\<lparr>ax_facecolor := (1, 1, 1), axis_on := False\<rparr>,
          geoms = [make_circle 1 30 True], onetime_geoms = [],
          bounds = (- 1, 1, - 1, 1)\<rparr>))) = None
   \<and> onetime_geoms (fst (render (\<lambda>wh a. replicate 16 0) (add_onetime 
       \<lparr>width = 2, height = 2, dpi = 100, figsize = (2 / 100, 2 / 100),
          ax = Axes_clear\<lparr>ax_facecolor := (1, 1, 1), axis_on := False\<rparr>,
          geoms = [make_circle 1 30 True], onetime_geoms = [],
          bounds = (- 1, 1, - 1, 1)\<rparr> (make_polyline [(0, 0), (1, 1)])) True)) = []
    \<and> geoms (fst (render (\<lambda>wh a. replicate 16 0) (add_onetime 
       \<lparr>width = 2, height = 2, dpi = 100, figsize = (2 / 100, 2 / 100),
          ax = Axes_clear\<lparr>ax_facecolor := (1, 1, 1), axis_on := False\<rparr>,
          geoms = [make_circle 1 30 True], onetime_geoms = [],
          bounds = (- 1, 1, - 1, 1)\<rparr> (make_polyline [(0, 0), (1, 1)])) True)) = geoms 
       \<lparr>width = 2, height = 2, dpi = 100, figsize = (2 / 100, 2 / 100),
          ax = Axes_clear\<lparr>ax_facecolor := (1, 1, 1), axis_on := False\<rparr>,
          geoms = [make_circle 1 30 True], onetime_geoms = [],
          bounds = (- 1, 1, - 1, 1)\<rparr>
    \<and> ax (fst (render (\<lambda>wh a. replicate 16 0) (add_onetime 
       \<lparr>width = 2, height = 2, dpi = 100, figsize = (2 / 100, 2 / 100),
          ax = Axes_clear\<lparr>ax_facecolor := (1, 1, 1), axis_on := False\<rparr>,
          geoms = [make_circle 1 30 True], onetime_geoms = [],
          bounds = (- 1, 1, - 1, 1)\<rparr> (make_polyline [(0, 0), (1, 1)])) True)) =
        fst (draw_gs (geoms 
       \<lparr>width = 2, height = 2, dpi = 100, figsize = (2 / 100, 2 / 100),
          ax = Axes_clear\<lparr>ax_facecolor := (1, 1, 1), axis_on := False\<rparr>,
          geoms = [make_circle 1 30 True], onetime_geoms = [],
          bounds = (- 1, 1, - 1, 1)\<rparr> @ onetime_geoms 
       \<lparr>width = 2, height = 2, dpi = 100, figsize = (2 / 100, 2 / 100),
          ax = Axes_clear\<lparr>ax_facecolor := (1, 1, 1), axis_on := False\<rparr>,
          geoms = [make_circle 1 30 True], onetime_geoms = [],
          bounds = (- 1, 1, - 1, 1)\<rparr> @ [(make_polyline [(0, 0), (1, 1)])]) (ax (prepare_axes 
       \<lparr>width = 2, height = 2, dpi = 100, figsize = (2 / 100, 2 / 100),
          ax = Axes_clear\<lparr>ax_facecolor := (1, 1, 1), axis_on := False\<rparr>,
          geoms = [make_circle 1 30 True], onetime_geoms = [],
          bounds = (- 1, 1, - 1, 1)\<rparr>)))
    \<and> snd (render (\<lambda>wh a. replicate 16 0) (add_onetime 
       \<lparr>width = 2, height = 2, dpi = 100, figsize = (2 / 100, 2 / 100),
          ax = Axes_clear\<lparr>ax_facecolor := (1, 1, 1), axis_on := False\<rparr>,
          geoms = [make_circle 1 30 True], onetime_geoms = [],
          bounds = (- 1, 1, - 1, 1)\<rparr> (make_polyline [(0, 0), (1, 1)])) False) = Inr None
    \<and> onetime_geoms (fst (render (\<lambda>wh a. replicate 16 0) (fst (render (\<lambda>wh a. replicate 16 0) (add_onetime 
       \<lparr>width = 2, height = 2, dpi = 100, figsize = (2 / 100, 2 / 100),
          ax = Axes_clear\<lparr>ax_facecolor := (1, 1, 1), axis_on := False\<rparr>,
          geoms = [make_circle 1 30 True], onetime_geoms = [],
          bounds = (- 1, 1, - 1, 1)\<rparr> (make_polyline [(0, 0), (1, 1)])) True)) False)) = []
    \<and> geoms (fst (render (\<lambda>wh a. replicate 16 0) (fst (render (\<lambda>wh a. replicate 16 0) (add_onetime 
       \<lparr>width = 2, height = 2, dpi = 100, figsize = (2 / 100, 2 / 100),
          ax = Axes_clear\<lparr>ax_facecolor := (1, 1, 1), axis_on := False\<rparr>,
          geoms = [make_circle 1 30 True], onetime_geoms = [],
          bounds = (- 1, 1, - 1, 1)\<rparr> (make_polyline [(0, 0), (1, 1)])) True)) False)) = geoms 
       \<lparr>width = 2, height = 2, dpi = 100, figsize = (2 / 100, 2 / 100),
          ax = Axes_clear\<lparr>ax_facecolor := (1, 1, 1), axis_on := False\<rparr>,
          geoms = [make_circle 1 30 True], onetime_geoms = [],
          bounds = (- 1, 1, - 1, 1)\<rparr>
    \<and> ax (fst (render (\<lambda>wh a. replicate 16 0) (fst (render (\<lambda>wh a. replicate 16 0) (add_onetime 
       \<lparr>width = 2, height = 2, dpi = 100, figsize = (2 / 100, 2 / 100),
          ax = Axes_clear\<lparr>ax_facecolor := (1, 1, 1), axis_on := False\<rparr>,
          geoms = [make_circle 1 30 True], onetime_geoms = [],
          bounds = (- 1, 1, - 1, 1)\<rparr> (make_polyline [(0, 0), (1, 1)])) True)) False)) =
        fst (draw_gs (geoms 
       \<lparr>width = 2, height = 2, dpi = 100, figsize = (2 / 100, 2 / 100),
          ax = Axes_clear\<lparr>ax_facecolor := (1, 1, 1), axis_on := False\<rparr>,
          geoms = [make_circle 1 30 True], onetime_geoms = [],
          bounds = (- 1, 1, - 1, 1)\<rparr>) (ax (prepare_axes 
       \<lparr>width = 2, height = 2, dpi = 100, figsize = (2 / 100, 2 / 100),
          ax = Axes_clear\<lparr>ax_facecolor := (1, 1, 1), axis_on := False\<rparr>,
          geoms = [make_circle 1 30 True], onetime_geoms = [],
          bounds = (- 1, 1, - 1, 1)\<rparr>)))
    \<and> snd (render (\<lambda>wh a. replicate 16 0) (fst (render (\<lambda>wh a. replicate 16 0) (add_onetime 
       \<lparr>width = 2, height = 2, dpi = 100, figsize = (2 / 100, 2 / 100),
          ax = Axes_clear\<lparr>ax_facecolor := (1, 1, 1), axis_on := False\<rparr>,
          geoms = [make_circle 1 30 True], onetime_geoms = [],
          bounds = (- 1, 1, - 1, 1)\<rparr> (make_polyline [(0, 0), (1, 1)])) True)) False) = Inr None"
proof -
  have h: "snd (draw_gs (geoms 
       \<lparr>width = 2, height = 2, dpi = 100, figsize = (2 / 100, 2 / 100),
          ax = Axes_clear\<lparr>ax_facecolor := (1, 1, 1), axis_on := False\<rparr>,
          geoms = [make_circle 1 30 True], onetime_geoms = [],
          bounds = (- 1, 1, - 1, 1)\<rparr> @ onetime_geoms 
       \<lparr>width = 2, height = 2, dpi = 100, figsize = (2 / 100, 2 / 100),
          ax = Axes_clear\<lparr>ax_facecolor := (1, 1, 1), axis_on := False\<rparr>,
          geoms = [make_circle 1 30 True], onetime_geoms = [],
          bounds = (- 1, 1, - 1, 1)\<rparr> @ [(make_polyline [(0, 0), (1, 1)])]) (ax (prepare_axes 
       \<lparr>width = 2, height = 2, dpi = 100, figsize = (2 / 100, 2 / 100),
          ax = Axes_clear\<lparr>ax_facecolor := (1, 1, 1), axis_on := False\<rparr>,
          geoms = [make_circle 1 30 True], onetime_geoms = [],
          bounds = (- 1, 1, - 1, 1)\<rparr>))) = None"
    by (simp add: make_circle_def make_polyline_def Geom_init_def Let_def get_colors_def
        get_linewidth_def Color_init_def clamp01_def collect_transform_def prepare_axes_def
        Axes_clear_def add_patch_def add_line_def PolyLine_pts_def)
  show ?thesis
    by (rule conjI [OF h render_clears_onetime [OF h, of "\<lambda>wh a. replicate 16 0" True False]])
qed

lemma render_lims:
  "xlim (ax (fst (render c v f))) = (case bounds v of (l, r, b, t) \<Rightarrow> (l, r))"
  "ylim (ax (fst (render c v f))) = (case bounds v of (l, r, b, t) \<Rightarrow> (b, t))"
proof -
  obtain l r b t where bv: "bounds v = (l, r, b, t)" by (cases "bounds v") auto
  have x: "xlim (ax (prepare_axes v)) = (l, r)" "ylim (ax (prepare_axes v)) = (b, t)"
    by (simp_all add: prepare_axes_def bv)
  obtain a2 e2 where d2: "draw_gs (geoms v) (ax (prepare_axes v)) = (a2, e2)"
    by (cases "draw_gs (geoms v) (ax (prepare_axes v))") auto
  obtain a3 e3 where d3: "draw_gs (onetime_geoms v) a2 = (a3, e3)"
    by (cases "draw_gs (onetime_geoms v) a2") auto
  have l2: "xlim a2 = (l, r)" "ylim a2 = (b, t)"
    using draw_lims(2) [of "geoms v" "ax (prepare_axes v)"] by (simp_all add: d2 x)
  have l3: "xlim a3 = (l, r)" "ylim a3 = (b, t)"
    using draw_lims(2) [of "onetime_geoms v" a2] by (simp_all add: d3 l2)
  show "xlim (ax (fst (render c v f))) = (case bounds v of (l, r, b, t) \<Rightarrow> (l, r))"
    by (simp add: render_def Let_def prepare_axes_fields d2 d3 l2 l3 bv
        split: prod.splits sum.splits option.splits)
  show "ylim (ax (fst (render c v f))) = (case bounds v of (l, r, b, t) \<Rightarrow> (b, t))"
    by (simp add: render_def Let_def prepare_axes_fields d2 d3 l2 l3 bv
        split: prod.splits sum.splits option.splits)
qed

text \<open>
  Claim C4. \<^verbatim>\<open>set_bounds\<close> fails exactly when \<open>right \<le> left\<close> or
  \<open>top \<le> bottom\<close>. When it fails the viewer is as before the call; when it
  succeeds the bounds are stored, and the next \<^verbatim>\<open>render\<close> sets the limits of
  the axes from them.
\<close>

theorem set_bounds_validates:
  "(snd (set_bounds v l r b t) \<noteq> None \<longleftrightarrow> r \<le> l \<or> t \<le> b)
   \<and> (r \<le> l \<or> t \<le> b \<longrightarrow> set_bounds v l r b t = (v, Some AssertionError))
   \<and> (\<not> (r \<le> l \<or> t \<le> b) \<longrightarrow>
        set_bounds v l r b t = (v\<lparr>bounds := (l, r, b, t)\<rparr>, None)
        \<and> xlim (ax (fst (render c (fst (set_bounds v l r b t)) f))) = (l, r)
        \<and> ylim (ax (fst (render c (fst (set_bounds v l r b t)) f))) = (b, t))"
  by (auto simp: set_bounds_def render_lims)

theorem set_bounds_validates_witness:
  "((0::real) \<le> 1 \<or> (1::real) \<le> 0)
   \<and> set_bounds 
       \<lparr>width = 2, height = 2, dpi = 100, figsize = (2 / 100, 2 / 100),
          ax = Axes_clear\<lparr>ax_facecolor := (1, 1, 1), axis_on := False\<rparr>,
          geoms = [], onetime_geoms = [], bounds = (- 1, 1, - 1, 1)\<rparr> 1 0 0 1 = (
       \<lparr>width = 2, height = 2, dpi = 100, figsize = (2 / 100, 2 / 100),
          ax = Axes_clear\<lparr>ax_facecolor := (1, 1, 1), axis_on := False\<rparr>,
          geoms = [], onetime_geoms = [], bounds = (- 1, 1, - 1, 1)\<rparr>, Some AssertionError)
   \<and> \<not> ((2::real) \<le> - 2 \<or> (3::real) \<le> - 3)
   \<and> set_bounds 
       \<lparr>width = 2, height = 2, dpi = 100, figsize = (2 / 100, 2 / 100),
          ax = Axes_clear\<lparr>ax_facecolor := (1, 1, 1), axis_on := False\<rparr>,
          geoms = [], onetime_geoms = [], bounds = (- 1, 1, - 1, 1)\<rparr> (- 2) 2 (- 3) 3 = (
       \<lparr>width = 2, height = 2, dpi = 100, figsize = (2 / 100, 2 / 100),
          ax = Axes_clear\<lparr>ax_facecolor := (1, 1, 1), axis_on := False\<rparr>,
          geoms = [], onetime_geoms = [], bounds = (- 1, 1, - 1, 1)\<rparr>\<lparr>bounds := (- 2, 2, - 3, 3)\<rparr>, None)
   \<and> xlim (ax (fst (render (\<lambda>wh a. replicate 16 0) (fst (set_bounds 
       \<lparr>width = 2, height = 2, dpi = 100, figsize = (2 / 100, 2 / 100),
          ax = Axes_clear\<lparr>ax_facecolor := (1, 1, 1), axis_on := False\<rparr>,
          geoms = [], onetime_geoms = [], bounds = (- 1, 1, - 1, 1)\<rparr> (- 2) 2 (- 3) 3)) False))) = (- 2, 2)
   \<and> ylim (ax (fst (render (\<lambda>wh a. replicate 16 0) (fst (set_bounds 
       \<lparr>width = 2, height = 2, dpi = 100, figsize = (2 / 100, 2 / 100),
          ax = Axes_clear\<lparr>ax_facecolor := (1, 1, 1), axis_on := False\<rparr>,
          geoms = [], onetime_geoms = [], bounds = (- 1, 1, - 1, 1)\<rparr> (- 2) 2 (- 3) 3)) False))) = (- 3, 3)"
proof -
  have a: "(0::real) \<le> 1 \<or> (1::real) \<le> 0" by simp
  have b: "\<not> ((2::real) \<le> - 2 \<or> (3::real) \<le> - 3)" by simp
  note t1 = set_bounds_validates [of "\<lparr>width = 2, height = 2, dpi = 100, figsize = (2 / 100, 2 / 100),
          ax = Axes_clear\<lparr>ax_facecolor := (1, 1, 1), axis_on := False\<rparr>,
          geoms = [], onetime_geoms = [], bounds = (- 1, 1, - 1, 1)\<rparr>" 1 0 0 1 "\<lambda>wh a. replicate 16 0" False,
      THEN conjunct2, THEN conjunct1, rule_format, OF a]
  note t2 = set_bounds_validates [of "\<lparr>width = 2, height = 2, dpi = 100, figsize = (2 / 100, 2 / 100),
          ax = Axes_clear\<lparr>ax_facecolor := (1, 1, 1), axis_on := False\<rparr>,
          geoms = [], onetime_geoms = [], bounds = (- 1, 1, - 1, 1)\<rparr>" "- 2" 2 "- 3" 3 "\<lambda>wh a. replicate 16 0" False,
      THEN conjunct2, THEN conjunct2, rule_format, OF b]
  show ?thesis
    by (rule conjI [OF a conjI [OF t1 conjI [OF b t2]]])
qed

section \<open>Pixel extraction\<close>

text \<open>
  The canvas of a viewer made for \<open>w\<close> by \<open>h\<close> pixels measures \<open>w\<close> by \<open>h\<close>, and
  the array \<^verbatim>\<open>render\<close> returns has \<open>h\<close> rows of \<open>w\<close> pixels, each the first three of
  the four bytes the canvas gives for that pixel.
\<close>

lemma Viewer_init_width_height:
  assumes "Viewer_init w h d = Inr v" "0 \<le> w" "0 \<le> h"
  shows "get_width_height v = (w, h)"
proof -
  have d: "d \<noteq> 0" using assms(1) by (auto simp: Viewer_init_def split: if_splits)
  have v: "figsize v = (real_of_int w / real_of_int d, real_of_int h / real_of_int d)" "dpi v = d"
    using assms(1) d by (auto simp: Viewer_init_def)
  show ?thesis using d assms(2,3) by (simp add: get_width_height_def v py_int_def)
qed

lemma render_rgb_array_pixels:
  assumes ok: "snd (draw_gs (geoms v @ onetime_geoms v) (ax (prepare_axes v))) = None"
    and wh: "get_width_height v = (w, h)"
    and len: "length (c (w, h) (fst (draw_gs (geoms v @ onetime_geoms v) (ax (prepare_axes v)))))
                = nat h * nat w * 4"
  shows "snd (render c v True) =
     Inr (Some (map (\<lambda>i. map (\<lambda>j. take 3 (drop ((i * nat w + j) * 4)
                  (c (w, h) (fst (draw_gs (geoms v @ onetime_geoms v) (ax (prepare_axes v)))))))
               [0..<nat w]) [0..<nat h]))"
proof -
  let ?a = "ax (prepare_axes v)"
  obtain a2 where a2: "draw_gs (geoms v) ?a = (a2, None)"
    using draw_gs_append_ok(1) [OF ok] by (cases "draw_gs (geoms v) ?a") simp
  have "draw_gs (geoms v @ onetime_geoms v) ?a = draw_gs (onetime_geoms v) a2"
    using draw_gs_append_ok(2) [OF ok] a2 by simp
  then obtain a3 where a3: "draw_gs (onetime_geoms v) a2 = (a3, None)"
    and e: "draw_gs (geoms v @ onetime_geoms v) ?a = (a3, None)"
    using ok by (cases "draw_gs (onetime_geoms v) a2") simp
  have g: "get_width_height ((prepare_axes v)\<lparr>ax := a3, onetime_geoms := []\<rparr>) = (w, h)"
    using wh by (simp add: get_width_height_def prepare_axes_def split: prod.splits)
  show ?thesis
    using len
    by (simp add: render_def Let_def prepare_axes_fields a2 a3 e g reshape_def min_def)
qed

text \<open>
  Claim C2, as the code has it. The frame comes from the canvas with four bytes
  per pixel in the order alpha, red, green, blue, and \<^verbatim>\<open>render\<close> keeps the
  first three of them: alpha, red and green. On a viewer of one pixel whose frame is
  one opaque red pixel, bytes \<open>255, 255, 0, 0\<close>, the array returned is
  \<open>[[[255, 255, 0]]]\<close>, where red, green, blue would be \<open>[[[255, 0, 0]]]\<close>.
  Without pixel extraction the call returns \<^verbatim>\<open>None\<close>.
\<close>

theorem render_drops_blue_not_alpha:
  "\<exists>v. Viewer_init 1 1 100 = Inr v
     \<and> get_width_height v = (1, 1)
     \<and> snd (render (\<lambda>wh a. [255, 255, 0, 0]) v True) = Inr (Some [[[255, 255, 0]]])
     \<and> snd (render (\<lambda>wh a. [255, 255, 0, 0]) v False) = Inr None"
  by (simp add: Viewer_init_def render_def prepare_axes_def Let_def get_width_height_def
      py_int_def reshape_def Axes_clear_def)

section \<open>Loading a scenario\<close>

text \<open>
  Claim C9. \<^verbatim>\<open>load\<close> raises \<^verbatim>\<open>FileNotFoundError\<close> when the path joined from the
  directory of the package and the name is not an existing file, and leaves
  \<^verbatim>\<open>sys.modules\<close> alone. When the file exists and the import machinery gives no
  spec, or a spec without a loader, it raises \<^verbatim>\<open>ImportError\<close>. When there is a
  spec with a loader and executing the module does not raise, it returns the
  executed module, which it has registered in \<^verbatim>\<open>sys.modules\<close> under the
  generated name.
\<close>

theorem load_outcomes:
  "(\<not> isfile env (join (file_dir env) name) \<longrightarrow>
      load env name = (env, Inl (FileNotFoundError (join (file_dir env) name))))
   \<and> (isfile env (join (file_dir env) name) \<longrightarrow>
        (spec_from_file_location env
           (''_dynamic_'' @ splitext_root (basename name) @ ''_'' @ uuid4_hex env)
           (join (file_dir env) name) = None
         \<or> (\<exists>spec. spec_from_file_location env
               (''_dynamic_'' @ splitext_root (basename name) @ ''_'' @ uuid4_hex env)
               (join (file_dir env) name) = Some spec \<and> loader spec = None)) \<longrightarrow>
        load env name =
          (env, Inl (ImportError (''Cannot create spec for '' @ join (file_dir env) name))))
   \<and> (isfile env (join (file_dir env) name) \<longrightarrow>
        spec_from_file_location env
           (''_dynamic_'' @ splitext_root (basename name) @ ''_'' @ uuid4_hex env)
           (join (file_dir env) name) = Some spec \<longrightarrow>
        loader spec = Some ld \<longrightarrow>
        exec_module ld (module_from_spec spec) = (m, None) \<longrightarrow>
        snd (load env name) = Inr m
        \<and> sys_modules (fst (load env name))
            (''_dynamic_'' @ splitext_root (basename name) @ ''_'' @ uuid4_hex env) = Some m)"
  by (auto simp: load_def Let_def split: option.splits prod.splits)

theorem load_outcomes_witness:
  "\<not> isfile
        \<lparr>file_dir = ''/scenarios'', isfile = (\<lambda>p. False), uuid4_hex = ''0f'', spec_from_file_location = (\<lambda>n p. None), sys_modules = Map.empty\<rparr>
        (join (file_dir
        \<lparr>file_dir = ''/scenarios'', isfile = (\<lambda>p. False), uuid4_hex = ''0f'', spec_from_file_location = (\<lambda>n p. None), sys_modules = Map.empty\<rparr>) ''simple.py'')
   \<and> load
        \<lparr>file_dir = ''/scenarios'', isfile = (\<lambda>p. False), uuid4_hex = ''0f'', spec_from_file_location = (\<lambda>n p. None), sys_modules = Map.empty\<rparr> ''simple.py'' =
       (\<lparr>file_dir = ''/scenarios'', isfile = (\<lambda>p. False), uuid4_hex = ''0f'', spec_from_file_location = (\<lambda>n p. None), sys_modules = Map.empty\<rparr>,
        Inl (FileNotFoundError (join (file_dir
        \<lparr>file_dir = ''/scenarios'', isfile = (\<lambda>p. False), uuid4_hex = ''0f'', spec_from_file_location = (\<lambda>n p. None), sys_modules = Map.empty\<rparr>) ''simple.py'')))
   \<and> isfile
        \<lparr>file_dir = ''/scenarios'', isfile = (\<lambda>p. True), uuid4_hex = ''0f'', spec_from_file_location = (\<lambda>n p. None), sys_modules = Map.empty\<rparr>
        (join (file_dir
        \<lparr>file_dir = ''/scenarios'', isfile = (\<lambda>p. True), uuid4_hex = ''0f'', spec_from_file_location = (\<lambda>n p. None), sys_modules = Map.empty\<rparr>) ''simple.py'')
   \<and> (spec_from_file_location
        \<lparr>file_dir = ''/scenarios'', isfile = (\<lambda>p. True), uuid4_hex = ''0f'', spec_from_file_location = (\<lambda>n p. None), sys_modules = Map.empty\<rparr>
        (''_dynamic_'' @ splitext_root (basename ''simple.py'') @ ''_'' @ uuid4_hex
        \<lparr>file_dir = ''/scenarios'', isfile = (\<lambda>p. True), uuid4_hex = ''0f'', spec_from_file_location = (\<lambda>n p. None), sys_modules = Map.empty\<rparr>)
        (join (file_dir
        \<lparr>file_dir = ''/scenarios'', isfile = (\<lambda>p. True), uuid4_hex = ''0f'', spec_from_file_location = (\<lambda>n p. None), sys_modules = Map.empty\<rparr>) ''simple.py'') = None
      \<or> (\<exists>spec. spec_from_file_location
        \<lparr>file_dir = ''/scenarios'', isfile = (\<lambda>p. True), uuid4_hex = ''0f'', spec_from_file_location = (\<lambda>n p. None), sys_modules = Map.empty\<rparr>
        (''_dynamic_'' @ splitext_root (basename ''simple.py'') @ ''_'' @ uuid4_hex
        \<lparr>file_dir = ''/scenarios'', isfile = (\<lambda>p. True), uuid4_hex = ''0f'', spec_from_file_location = (\<lambda>n p. None), sys_modules = Map.empty\<rparr>)
        (join (file_dir
        \<lparr>file_dir = ''/scenarios'', isfile = (\<lambda>p. True), uuid4_hex = ''0f'', spec_from_file_location = (\<lambda>n p. None), sys_modules = Map.empty\<rparr>) ''simple.py'') = Some spec \<and> loader spec = None))
   \<and> load
        \<lparr>file_dir = ''/scenarios'', isfile = (\<lambda>p. True), uuid4_hex = ''0f'', spec_from_file_location = (\<lambda>n p. None), sys_modules = Map.empty\<rparr> ''simple.py'' =
       (\<lparr>file_dir = ''/scenarios'', isfile = (\<lambda>p. True), uuid4_hex = ''0f'', spec_from_file_location = (\<lambda>n p. None), sys_modules = Map.empty\<rparr>,
        Inl (ImportError (''Cannot create spec for '' @ (join (file_dir
        \<lparr>file_dir = ''/scenarios'', isfile = (\<lambda>p. True), uuid4_hex = ''0f'', spec_from_file_location = (\<lambda>n p. None), sys_modules = Map.empty\<rparr>) ''simple.py''))))
   \<and> isfile
        \<lparr>file_dir = ''/scenarios'', isfile = (\<lambda>p. True), uuid4_hex = ''0f'', spec_from_file_location = (\<lambda>n p. Some (ModuleSpec n (Some (Loader (\<lambda>m. (Module (mod_name m) [(''Scenario'', ''class'')], None)))))), sys_modules = Map.empty\<rparr>
        (join (file_dir
        \<lparr>file_dir = ''/scenarios'', isfile = (\<lambda>p. True), uuid4_hex = ''0f'', spec_from_file_location = (\<lambda>n p. Some (ModuleSpec n (Some (Loader (\<lambda>m. (Module (mod_name m) [(''Scenario'', ''class'')], None)))))), sys_modules = Map.empty\<rparr>) ''simple.py'')
   \<and> spec_from_file_location
        \<lparr>file_dir = ''/scenarios'', isfile = (\<lambda>p. True), uuid4_hex = ''0f'', spec_from_file_location = (\<lambda>n p. Some (ModuleSpec n (Some (Loader (\<lambda>m. (Module (mod_name m) [(''Scenario'', ''class'')], None)))))), sys_modules = Map.empty\<rparr>
        (''_dynamic_'' @ splitext_root (basename ''simple.py'') @ ''_'' @ uuid4_hex
        \<lparr>file_dir = ''/scenarios'', isfile = (\<lambda>p. True), uuid4_hex = ''0f'', spec_from_file_location = (\<lambda>n p. Some (ModuleSpec n (Some (Loader (\<lambda>m. (Module (mod_name m) [(''Scenario'', ''class'')], None)))))), sys_modules = Map.empty\<rparr>)
        (join (file_dir
        \<lparr>file_dir = ''/scenarios'', isfile = (\<lambda>p. True), uuid4_hex = ''0f'', spec_from_file_location = (\<lambda>n p. Some (ModuleSpec n (Some (Loader (\<lambda>m. (Module (mod_name m) [(''Scenario'', ''class'')], None)))))), sys_modules = Map.empty\<rparr>) ''simple.py'') = Some (ModuleSpec (''_dynamic_'' @ splitext_root (basename ''simple.py'') @ ''_'' @ uuid4_hex
        \<lparr>file_dir = ''/scenarios'', isfile = (\<lambda>p. True), uuid4_hex = ''0f'', spec_from_file_location = (\<lambda>n p. Some (ModuleSpec n (Some (Loader (\<lambda>m. (Module (mod_name m) [(''Scenario'', ''class'')], None)))))), sys_modules = Map.empty\<rparr>) (Some (Loader (\<lambda>m. (Module (mod_name m) [(''Scenario'', ''class'')], None)))))
   \<and> loader (ModuleSpec (''_dynamic_'' @ splitext_root (basename ''simple.py'') @ ''_'' @ uuid4_hex
        \<lparr>file_dir = ''/scenarios'', isfile = (\<lambda>p. True), uuid4_hex = ''0f'', spec_from_file_location = (\<lambda>n p. Some (ModuleSpec n (Some (Loader (\<lambda>m. (Module (mod_name m) [(''Scenario'', ''class'')], None)))))), sys_modules = Map.empty\<rparr>) (Some (Loader (\<lambda>m. (Module (mod_name m) [(''Scenario'', ''class'')], None))))) = Some (Loader (\<lambda>m. (Module (mod_name m) [(''Scenario'', ''class'')], None)))
   \<and> exec_module (Loader (\<lambda>m. (Module (mod_name m) [(''Scenario'', ''class'')], None))) (module_from_spec (ModuleSpec (''_dynamic_'' @ splitext_root (basename ''simple.py'') @ ''_'' @ uuid4_hex
        \<lparr>file_dir = ''/scenarios'', isfile = (\<lambda>p. True), uuid4_hex = ''0f'', spec_from_file_location = (\<lambda>n p. Some (ModuleSpec n (Some (Loader (\<lambda>m. (Module (mod_name m) [(''Scenario'', ''class'')], None)))))), sys_modules = Map.empty\<rparr>) (Some (Loader (\<lambda>m. (Module (mod_name m) [(''Scenario'', ''class'')], None)))))) = ((Module (''_dynamic_'' @ splitext_root (basename ''simple.py'') @ ''_'' @ uuid4_hex
        \<lparr>file_dir = ''/scenarios'', isfile = (\<lambda>p. True), uuid4_hex = ''0f'', spec_from_file_location = (\<lambda>n p. Some (ModuleSpec n (Some (Loader (\<lambda>m. (Module (mod_name m) [(''Scenario'', ''class'')], None)))))), sys_modules = Map.empty\<rparr>) [(''Scenario'', ''class'')]), None)
   \<and> snd (load
        \<lparr>file_dir = ''/scenarios'', isfile = (\<lambda>p. True), uuid4_hex = ''0f'', spec_from_file_location = (\<lambda>n p. Some (ModuleSpec n (Some (Loader (\<lambda>m. (Module (mod_name m) [(''Scenario'', ''class'')], None)))))), sys_modules = Map.empty\<rparr> ''simple.py'') = Inr (Module (''_dynamic_'' @ splitext_root (basename ''simple.py'') @ ''_'' @ uuid4_hex
        \<lparr>file_dir = ''/scenarios'', isfile = (\<lambda>p. True), uuid4_hex = ''0f'', spec_from_file_location = (\<lambda>n p. Some (ModuleSpec n (Some (Loader (\<lambda>m. (Module (mod_name m) [(''Scenario'', ''class'')], None)))))), sys_modules = Map.empty\<rparr>) [(''Scenario'', ''class'')])
   \<and> sys_modules (fst (load
        \<lparr>file_dir = ''/scenarios'', isfile = (\<lambda>p. True), uuid4_hex = ''0f'', spec_from_file_location = (\<lambda>n p. Some (ModuleSpec n (Some (Loader (\<lambda>m. (Module (mod_name m) [(''Scenario'', ''class'')], None)))))), sys_modules = Map.empty\<rparr> ''simple.py''))
        (''_dynamic_'' @ splitext_root (basename ''simple.py'') @ ''_'' @ uuid4_hex
        \<lparr>file_dir = ''/scenarios'', isfile = (\<lambda>p. True), uuid4_hex = ''0f'', spec_from_file_location = (\<lambda>n p. Some (ModuleSpec n (Some (Loader (\<lambda>m. (Module (mod_name m) [(''Scenario'', ''class'')], None)))))), sys_modules = Map.empty\<rparr>) = Some (Module (''_dynamic_'' @ splitext_root (basename ''simple.py'') @ ''_'' @ uuid4_hex
        \<lparr>file_dir = ''/scenarios'', isfile = (\<lambda>p. True), uuid4_hex = ''0f'', spec_from_file_location = (\<lambda>n p. Some (ModuleSpec n (Some (Loader (\<lambda>m. (Module (mod_name m) [(''Scenario'', ''class'')], None)))))), sys_modules = Map.empty\<rparr>) [(''Scenario'', ''class'')])"
proof -
  have hA: "\<not> isfile
        \<lparr>file_dir = ''/scenarios'', isfile = (\<lambda>p. False), uuid4_hex = ''0f'', spec_from_file_location = (\<lambda>n p. None), sys_modules = Map.empty\<rparr>
        (join (file_dir
        \<lparr>file_dir = ''/scenarios'', isfile = (\<lambda>p. False), uuid4_hex = ''0f'', spec_from_file_location = (\<lambda>n p. None), sys_modules = Map.empty\<rparr>) ''simple.py'')" by simp
  have hB1: "isfile
        \<lparr>file_dir = ''/scenarios'', isfile = (\<lambda>p. True), uuid4_hex = ''0f'', spec_from_file_location = (\<lambda>n p. None), sys_modules = Map.empty\<rparr>
        (join (file_dir
        \<lparr>file_dir = ''/scenarios'', isfile = (\<lambda>p. True), uuid4_hex = ''0f'', spec_from_file_location = (\<lambda>n p. None), sys_modules = Map.empty\<rparr>) ''simple.py'')" by simp
  have hB2: "(spec_from_file_location
        \<lparr>file_dir = ''/scenarios'', isfile = (\<lambda>p. True), uuid4_hex = ''0f'', spec_from_file_location = (\<lambda>n p. None), sys_modules = Map.empty\<rparr>
        (''_dynamic_'' @ splitext_root (basename ''simple.py'') @ ''_'' @ uuid4_hex
        \<lparr>file_dir = ''/scenarios'', isfile = (\<lambda>p. True), uuid4_hex = ''0f'', spec_from_file_location = (\<lambda>n p. None), sys_modules = Map.empty\<rparr>)
        (join (file_dir
        \<lparr>file_dir = ''/scenarios'', isfile = (\<lambda>p. True), uuid4_hex = ''0f'', spec_from_file_location = (\<lambda>n p. None), sys_modules = Map.empty\<rparr>) ''simple.py'') = None
      \<or> (\<exists>spec. spec_from_file_location
        \<lparr>file_dir = ''/scenarios'', isfile = (\<lambda>p. True), uuid4_hex = ''0f'', spec_from_file_location = (\<lambda>n p. None), sys_modules = Map.empty\<rparr>
        (''_dynamic_'' @ splitext_root (basename ''simple.py'') @ ''_'' @ uuid4_hex
        \<lparr>file_dir = ''/scenarios'', isfile = (\<lambda>p. True), uuid4_hex = ''0f'', spec_from_file_location = (\<lambda>n p. None), sys_modules = Map.empty\<rparr>)
        (join (file_dir
        \<lparr>file_dir = ''/scenarios'', isfile = (\<lambda>p. True), uuid4_hex = ''0f'', spec_from_file_location = (\<lambda>n p. None), sys_modules = Map.empty\<rparr>) ''simple.py'') = Some spec \<and> loader spec = None))" by simp
  have hC1: "isfile
        \<lparr>file_dir = ''/scenarios'', isfile = (\<lambda>p. True), uuid4_hex = ''0f'', spec_from_file_location = (\<lambda>n p. Some (ModuleSpec n (Some (Loader (\<lambda>m. (Module (mod_name m) [(''Scenario'', ''class'')], None)))))), sys_modules = Map.empty\<rparr>
        (join (file_dir
        \<lparr>file_dir = ''/scenarios'', isfile = (\<lambda>p. True), uuid4_hex = ''0f'', spec_from_file_location = (\<lambda>n p. Some (ModuleSpec n (Some (Loader (\<lambda>m. (Module (mod_name m) [(''Scenario'', ''class'')], None)))))), sys_modules = Map.empty\<rparr>) ''simple.py'')" by simp
  have hC2: "spec_from_file_location
        \<lparr>file_dir = ''/scenarios'', isfile = (\<lambda>p. True), uuid4_hex = ''0f'', spec_from_file_location = (\<lambda>n p. Some (ModuleSpec n (Some (Loader (\<lambda>m. (Module (mod_name m) [(''Scenario'', ''class'')], None)))))), sys_modules = Map.empty\<rparr>
        (''_dynamic_'' @ splitext_root (basename ''simple.py'') @ ''_'' @ uuid4_hex
        \<lparr>file_dir = ''/scenarios'', isfile = (\<lambda>p. True), uuid4_hex = ''0f'', spec_from_file_location = (\<lambda>n p. Some (ModuleSpec n (Some (Loader (\<lambda>m. (Module (mod_name m) [(''Scenario'', ''class'')], None)))))), sys_modules = Map.empty\<rparr>)
        (join (file_dir
        \<lparr>file_dir = ''/scenarios'', isfile = (\<lambda>p. True), uuid4_hex = ''0f'', spec_from_file_location = (\<lambda>n p. Some (ModuleSpec n (Some (Loader (\<lambda>m. (Module (mod_name m) [(''Scenario'', ''class'')], None)))))), sys_modules = Map.empty\<rparr>) ''simple.py'') = Some (ModuleSpec (''_dynamic_'' @ splitext_root (basename ''simple.py'') @ ''_'' @ uuid4_hex
        \<lparr>file_dir = ''/scenarios'', isfile = (\<lambda>p. True), uuid4_hex = ''0f'', spec_from_file_location = (\<lambda>n p. Some (ModuleSpec n (Some (Loader (\<lambda>m. (Module (mod_name m) [(''Scenario'', ''class'')], None)))))), sys_modules = Map.empty\<rparr>) (Some (Loader (\<lambda>m. (Module (mod_name m) [(''Scenario'', ''class'')], None)))))" by simp
  have hC3: "loader (ModuleSpec (''_dynamic_'' @ splitext_root (basename ''simple.py'') @ ''_'' @ uuid4_hex
        \<lparr>file_dir = ''/scenarios'', isfile = (\<lambda>p. True), uuid4_hex = ''0f'', spec_from_file_location = (\<lambda>n p. Some (ModuleSpec n (Some (Loader (\<lambda>m. (Module (mod_name m) [(''Scenario'', ''class'')], None)))))), sys_modules = Map.empty\<rparr>) (Some (Loader (\<lambda>m. (Module (mod_name m) [(''Scenario'', ''class'')], None))))) = Some (Loader (\<lambda>m. (Module (mod_name m) [(''Scenario'', ''class'')], None)))" by simp
  have hC4: "exec_module (Loader (\<lambda>m. (Module (mod_name m) [(''Scenario'', ''class'')], None))) (module_from_spec (ModuleSpec (''_dynamic_'' @ splitext_root (basename ''simple.py'') @ ''_'' @ uuid4_hex
        \<lparr>file_dir = ''/scenarios'', isfile = (\<lambda>p. True), uuid4_hex = ''0f'', spec_from_file_location = (\<lambda>n p. Some (ModuleSpec n (Some (Loader (\<lambda>m. (Module (mod_name m) [(''Scenario'', ''class'')], None)))))), sys_modules = Map.empty\<rparr>) (Some (Loader (\<lambda>m. (Module (mod_name m) [(''Scenario'', ''class'')], None)))))) = ((Module (''_dynamic_'' @ splitext_root (basename ''simple.py'') @ ''_'' @ uuid4_hex
        \<lparr>file_dir = ''/scenarios'', isfile = (\<lambda>p. True), uuid4_hex = ''0f'', spec_from_file_location = (\<lambda>n p. Some (ModuleSpec n (Some (Loader (\<lambda>m. (Module (mod_name m) [(''Scenario'', ''class'')], None)))))), sys_modules = Map.empty\<rparr>) [(''Scenario'', ''class'')]), None)" by (simp add: module_from_spec_def)
  note tA = load_outcomes [of "\<lparr>file_dir = ''/scenarios'', isfile = (\<lambda>p. False), uuid4_hex = ''0f'', spec_from_file_location = (\<lambda>n p. None), sys_modules = Map.empty\<rparr>" "''simple.py''",
      THEN conjunct1, rule_format, OF hA]
  note tB = load_outcomes [of "\<lparr>file_dir = ''/scenarios'', isfile = (\<lambda>p. True), uuid4_hex = ''0f'', spec_from_file_location = (\<lambda>n p. None), sys_modules = Map.empty\<rparr>" "''simple.py''",
      THEN conjunct2, THEN conjunct1, rule_format, OF hB1 hB2]
  note tC = load_outcomes [of "\<lparr>file_dir = ''/scenarios'', isfile = (\<lambda>p. True), uuid4_hex = ''0f'', spec_from_file_location = (\<lambda>n p. Some (ModuleSpec n (Some (Loader (\<lambda>m. (Module (mod_name m) [(''Scenario'', ''class'')], None)))))), sys_modules = Map.empty\<rparr>" "''simple.py''" "(ModuleSpec (''_dynamic_'' @ splitext_root (basename ''simple.py'') @ ''_'' @ uuid4_hex
        \<lparr>file_dir = ''/scenarios'', isfile = (\<lambda>p. True), uuid4_hex = ''0f'', spec_from_file_location = (\<lambda>n p. Some (ModuleSpec n (Some (Loader (\<lambda>m. (Module (mod_name m) [(''Scenario'', ''class'')], None)))))), sys_modules = Map.empty\<rparr>) (Some (Loader (\<lambda>m. (Module (mod_name m) [(''Scenario'', ''class'')], None)))))" "Loader (\<lambda>m. (Module (mod_name m) [(''Scenario'', ''class'')], None))" "(Module (''_dynamic_'' @ splitext_root (basename ''simple.py'') @ ''_'' @ uuid4_hex
        \<lparr>file_dir = ''/scenarios'', isfile = (\<lambda>p. True), uuid4_hex = ''0f'', spec_from_file_location = (\<lambda>n p. Some (ModuleSpec n (Some (Loader (\<lambda>m. (Module (mod_name m) [(''Scenario'', ''class'')], None)))))), sys_modules = Map.empty\<rparr>) [(''Scenario'', ''class'')])",
      THEN conjunct2, THEN conjunct2, rule_format, OF hC1 hC2 hC3 hC4]
  show ?thesis
    by (rule conjI [OF hA conjI [OF tA conjI [OF hB1 conjI [OF hB2 conjI [OF tB
          conjI [OF hC1 conjI [OF hC2 conjI [OF hC3 conjI [OF hC4 tC]]]]]]]]])
qed

end
